theory Spec2Isabelle
  imports Main "HOL-Library.Sublist" "HOL-Library.AList"
begin

section \<open>MyRentalHost Concierge: the backend of \<^verbatim>\<open>app.py\<close> and the phone registry\<close>

text \<open>
  The development embeds the request handlers of \<^verbatim>\<open>src/app.py\<close> and the class
  \<^verbatim>\<open>GuestPhoneRegistry\<close> of \<^verbatim>\<open>src/whatsapp_integration.py\<close> as functions on an
  explicit state. Python strings are \<^typ>\<open>string\<close>; a value that may be \<^verbatim>\<open>None\<close>
  (a missing JSON field, a missing query argument) is a \<^typ>\<open>string option\<close>.
\<close>

subsection \<open>String helpers of the Python library\<close>

definition nl :: char where
  "nl = CHR 0x0A"

text \<open>
  \<^verbatim>\<open>str.lower\<close> on the ASCII letters. The only use is the membership test of
  \<^verbatim>\<open>allowed_file\<close> against three lower-case ASCII words, and no character outside
  \<^verbatim>\<open>A-Z\<close> lower-cases to one of the letters of those words.
\<close>

definition lower_char :: "char \<Rightarrow> char" where
  "lower_char c =
     (let n = (of_char c :: nat) in if 65 \<le> n \<and> n \<le> 90 then char_of (n + 32) else c)"

definition lower :: "string \<Rightarrow> string" where
  "lower s = map lower_char s"

text \<open>
  \<^verbatim>\<open>s.rsplit('.', 1)\<close>: the text before the last dot and the text after it, or the
  whole string alone when it has no dot.
\<close>

definition rsplit_dot :: "string \<Rightarrow> string list" where
  "rsplit_dot s =
     (if CHR ''.'' \<in> set s
      then [rev (tl (dropWhile (\<lambda>c. c \<noteq> CHR ''.'') (rev s))),
            rev (takeWhile (\<lambda>c. c \<noteq> CHR ''.'') (rev s))]
      else [s])"

text \<open>\<^verbatim>\<open>s.endswith(suf)\<close>.\<close>

definition endswith :: "string \<Rightarrow> string \<Rightarrow> bool" where
  "endswith s suf = suffix suf s"

text \<open>\<^verbatim>\<open>s.startswith(pre)\<close>.\<close>

definition startswith :: "string \<Rightarrow> string \<Rightarrow> bool" where
  "startswith s pre = prefix pre s"

text \<open>
  \<^verbatim>\<open>os.path.join(a, b)\<close> of the POSIX path module: a second part that starts with a
  slash replaces the first; otherwise the parts are put together with one slash, which
  is left out when the first part is empty or ends with a slash.
\<close>

definition os_path_join :: "string \<Rightarrow> string \<Rightarrow> string" where
  "os_path_join a b =
     (if startswith b ''/'' then b
      else if a = [] \<or> endswith a ''/'' then a @ b
      else a @ ''/'' @ b)"

text \<open>
  The text of a path before its last slash and the text after it: the directory an
  entry lies in, and the name of the entry there.
\<close>

definition parent_path :: "string \<Rightarrow> string" where
  "parent_path path = rev (drop 1 (dropWhile (\<lambda>c. c \<noteq> CHR ''/'') (rev path)))"

definition last_name :: "string \<Rightarrow> string" where
  "last_name path = rev (takeWhile (\<lambda>c. c \<noteq> CHR ''/'') (rev path))"

text \<open>Python's truth value of an optional string: \<^verbatim>\<open>not x\<close> holds for \<^verbatim>\<open>None\<close> and \<^verbatim>\<open>''\<close>.\<close>

definition py_not :: "string option \<Rightarrow> bool" where
  "py_not x = (x = None \<or> x = Some [])"

subsection \<open>Configuration and \<^verbatim>\<open>allowed_file\<close>\<close>

definition ALLOWED_EXTENSIONS :: "string set" where
  "ALLOWED_EXTENSIONS = {''pdf'', ''docx'', ''doc''}"

text \<open>
  \<^verbatim>\<open>'.' in filename and filename.rsplit('.', 1)[1].lower() in ALLOWED_EXTENSIONS\<close>.
  The index 1 is read only when the name has a dot, where the split has two parts.
\<close>

definition allowed_file :: "string \<Rightarrow> bool" where
  "allowed_file filename =
     (CHR ''.'' \<in> set filename \<and> lower (rsplit_dot filename ! 1) \<in> ALLOWED_EXTENSIONS)"

subsection \<open>Data model\<close>

text \<open>
  The dictionaries the program builds, as records. The field names carry a prefix where
  the same key occurs in two dictionaries: \<^verbatim>\<open>role\<close>, \<^verbatim>\<open>content\<close>, \<^verbatim>\<open>timestamp\<close> of
  a history entry; \<^verbatim>\<open>guest_id\<close>, \<^verbatim>\<open>apartment_id\<close>, \<^verbatim>\<open>created_at\<close> of the record
  written by \<^verbatim>\<open>save_guest_info\<close>; \<^verbatim>\<open>filename\<close>, \<^verbatim>\<open>content\<close> of a loaded document;
  \<^verbatim>\<open>apartment_id\<close>, \<^verbatim>\<open>documents\<close>, \<^verbatim>\<open>full_text\<close> of the value of
  \<^verbatim>\<open>load_apartment_info\<close>.
\<close>

record chat_message =
  msg_role :: string
  msg_content :: string
  msg_timestamp :: string

record guest_info =
  link_guest_id :: string
  link_apartment_id :: string
  link_created_at :: string

record document =
  doc_filename :: string
  doc_content :: string

record apartment_info =
  info_apartment_id :: string
  info_documents :: "document list"
  info_full_text :: string

text \<open>
  The directory \<^verbatim>\<open>chat_history\<close> holds JSON files. The program writes two shapes there:
  a list of history entries (\<^verbatim>\<open>save_chat_history\<close>) and one guest record
  (\<^verbatim>\<open>save_guest_info\<close>). Both kinds of file live in the same directory under names
  built from the guest id, so a file is read back as whatever shape it holds.
\<close>

datatype json_file = JHistory "chat_message list" | JInfo guest_info

text \<open>The bytes of an uploaded file; the extractors read them.\<close>

type_synonym raw = string

text \<open>
  The state the handlers work on. Paths are the texts the program hands to the
  operating system, and two paths are the same when their texts are: an id with
  \<^verbatim>\<open>..\<close> or a doubled slash in it, which gives one file a second text, is not
  followed to that file.
  \<^item> \<open>apartments_data\<close>: for the path of a directory, its listing in the order
    \<^verbatim>\<open>os.listdir\<close> gives it, each name with the bytes found under that name; \<open>None\<close> for
    a path that is not a directory.
  \<^item> \<open>chat_history_dir\<close>: the JSON files the session store reads, by path.
  \<^item> \<open>responder_calls\<close>: the requests sent to the language-model service so far, each
    the system prompt with the list of (role, content) pairs.
\<close>

record world =
  apartments_data :: "string \<rightharpoonup> (string \<times> raw) list"
  chat_history_dir :: "string \<rightharpoonup> json_file"
  responder_calls :: "(string \<times> (string \<times> string) list) list"

text \<open>
  What \<^verbatim>\<open>os.path.exists\<close> and \<^verbatim>\<open>os.listdir\<close> find at a path. An entry of a listing lies
  at the path of its directory, a slash, and its name; where that path is not a
  directory itself, it is a regular file. So \<^verbatim>\<open>os.path.exists\<close> holds for directories
  and for the files listed in them, and \<^verbatim>\<open>os.listdir\<close> lists the first and raises
  \<^verbatim>\<open>NotADirectoryError\<close> on the second.
\<close>

datatype fs_node = Directory "(string \<times> raw) list" | Regular_file

definition listed_file :: "world \<Rightarrow> string \<Rightarrow> bool" where
  "listed_file s path =
     (CHR ''/'' \<in> set path \<and>
      (case apartments_data s (parent_path path) of
         None \<Rightarrow> False
       | Some listing \<Rightarrow> last_name path \<in> fst ` set listing))"

definition path_node :: "world \<Rightarrow> string \<Rightarrow> fs_node option" where
  "path_node s path =
     (case apartments_data s path of
        Some listing \<Rightarrow> Some (Directory listing)
      | None \<Rightarrow> if listed_file s path then Some Regular_file else None)"

text \<open>Exceptions that leave a function, and the bodies of the JSON error replies.\<close>

datatype py_exception =
    AttributeError
  | TypeError
  | NameError
  | ValueError
  | OSError
  | FileNotFoundError
  | FileExistsError
  | NotADirectoryError
  | IsADirectoryError

datatype error_message =
    Required_fields
  | Apartment_required
  | Apartment_info_not_found string
  | Processing_error
  | No_file_sent
  | Empty_filename
  | File_type_not_allowed
  | Apartment_not_found

datatype 'a view_result =
    Json_ok 'a
  | Json_error error_message nat
  | Unhandled py_exception

text \<open>
  The two calls with which the program makes something new in the file system:
  \<^verbatim>\<open>open(path, 'w')\<close> (also behind \<^verbatim>\<open>file.save\<close>) and \<^verbatim>\<open>os.makedirs\<close>.
\<close>

datatype os_call = Open_for_writing string | Make_directories string

text \<open>
  What the program calls outside itself:
  \<^item> the two text extractors (PyPDF2 and python-docx behind \<^verbatim>\<open>extract_text_from_pdf\<close>
    and \<^verbatim>\<open>extract_text_from_docx\<close>, which catch every exception and return the text read
    so far);
  \<^item> werkzeug's \<^verbatim>\<open>secure_filename\<close>;
  \<^item> the responder: \<^verbatim>\<open>client.messages.create(...)\<close> followed by
    \<^verbatim>\<open>response.content[0].text\<close>, \<open>None\<close> when any of that raises;
  \<^item> the operating system, where it may refuse: \<open>os_refuses ex s call\<close> is the exception
    it raises for the call in the state \<open>s\<close> (a missing parent directory, a name that
    is too long or holds a NUL byte, a missing permission), \<open>None\<close> when it carries the
    call out. What the state itself settles (a regular file where a directory is to be
    made, a directory where a file is to be written) is read from the state.
  Reading is not refused: a path that exists is read.
\<close>

record externals =
  extract_text_from_pdf :: "raw \<Rightarrow> string"
  extract_text_from_docx :: "raw \<Rightarrow> string"
  secure_filename :: "string \<Rightarrow> string"
  responder :: "string \<Rightarrow> (string \<times> string) list \<Rightarrow> string option"
  os_refuses :: "world \<Rightarrow> os_call \<Rightarrow> py_exception option"

text \<open>
  The values of \<^verbatim>\<open>datetime.now().isoformat()\<close> at the three places of \<^verbatim>\<open>chat\<close> that read
  the clock: in \<^verbatim>\<open>save_guest_info\<close>, at the guest's entry and at the assistant's entry.
\<close>

record clock =
  now_link :: string
  now_user :: string
  now_assistant :: string

subsection \<open>The knowledge loader\<close>

text \<open>
  One turn of the loop of \<^verbatim>\<open>load_apartment_info\<close> that reaches the two statements after
  the \<^verbatim>\<open>if\<close>: the document is appended and the full text grows by
  \<^verbatim>\<open>f"\n\n=== {filename} ===\n{text}"\<close>.
\<close>

definition section_marker :: "string \<Rightarrow> string" where
  "section_marker filename = [nl, nl] @ ''=== '' @ filename @ '' ==='' @ [nl]"

definition add_document :: "string \<Rightarrow> string \<Rightarrow> apartment_info \<Rightarrow> apartment_info" where
  "add_document filename text info =
     info\<lparr>info_documents := info_documents info @ [\<lparr>doc_filename = filename, doc_content = text\<rparr>],
          info_full_text := info_full_text info @ section_marker filename @ text\<rparr>"

fun load_documents :: "externals \<Rightarrow> (string \<times> raw) list \<Rightarrow> apartment_info \<Rightarrow> apartment_info" where
  "load_documents ex [] info = info"
| "load_documents ex ((filename, bytes) # rest) info =
     (if endswith filename ''.pdf''
      then load_documents ex rest (add_document filename (extract_text_from_pdf ex bytes) info)
      else if endswith filename ''.docx'' \<or> endswith filename ''.doc''
      then load_documents ex rest (add_document filename (extract_text_from_docx ex bytes) info)
      else load_documents ex rest info)"

text \<open>
  \<^verbatim>\<open>load_apartment_info\<close>: \<^verbatim>\<open>None\<close> when \<^verbatim>\<open>os.path.exists(apartment_folder)\<close> is false;
  otherwise \<^verbatim>\<open>os.listdir(apartment_folder)\<close> is called with no further test, and raises
  when the path is a regular file.
\<close>

definition UPLOAD_FOLDER :: string where
  "UPLOAD_FOLDER = ''apartments_data''"

definition apartment_folder :: "string \<Rightarrow> string" where
  "apartment_folder apartment_id = os_path_join UPLOAD_FOLDER apartment_id"

definition load_apartment_info ::
  "externals \<Rightarrow> string \<Rightarrow> world \<Rightarrow> py_exception + apartment_info option" where
  "load_apartment_info ex apartment_id s =
     (case path_node s (apartment_folder apartment_id) of
        None \<Rightarrow> Inr None
      | Some Regular_file \<Rightarrow> Inl NotADirectoryError
      | Some (Directory listing) \<Rightarrow>
          Inr (Some (load_documents ex listing
            \<lparr>info_apartment_id = apartment_id, info_documents = [], info_full_text = []\<rparr>)))"

subsection \<open>The session store\<close>

definition history_file :: "string \<Rightarrow> string" where
  "history_file guest_id = ''chat_history/'' @ guest_id @ ''.json''"

definition guest_file :: "string \<Rightarrow> string" where
  "guest_file guest_id = ''chat_history/'' @ guest_id @ ''_info.json''"

text \<open>\<^verbatim>\<open>get_chat_history\<close>: the JSON value of the file, the empty list when there is none.\<close>

definition get_chat_history :: "string \<Rightarrow> world \<Rightarrow> json_file" where
  "get_chat_history guest_id s =
     (case chat_history_dir s (history_file guest_id) of
        Some j \<Rightarrow> j
      | None \<Rightarrow> JHistory [])"

text \<open>
  \<^verbatim>\<open>with open(path, 'w', encoding='utf-8') as f: json.dump(value, f, ...)\<close>: the file is
  opened, which the operating system may refuse, and then holds the value.
\<close>

definition write_json :: "string \<Rightarrow> json_file \<Rightarrow> world \<Rightarrow> world" where
  "write_json path value s = s\<lparr>chat_history_dir := (chat_history_dir s)(path \<mapsto> value)\<rparr>"

definition dump_json ::
  "externals \<Rightarrow> string \<Rightarrow> json_file \<Rightarrow> world \<Rightarrow> py_exception + world" where
  "dump_json ex path value s =
     (case os_refuses ex s (Open_for_writing path) of
        Some e \<Rightarrow> Inl e
      | None \<Rightarrow> Inr (write_json path value s))"

definition save_chat_history ::
  "externals \<Rightarrow> string \<Rightarrow> chat_message list \<Rightarrow> world \<Rightarrow> py_exception + world" where
  "save_chat_history ex guest_id history s =
     dump_json ex (history_file guest_id) (JHistory history) s"

definition save_guest_info ::
  "externals \<Rightarrow> string \<Rightarrow> string \<Rightarrow> string \<Rightarrow> world \<Rightarrow> py_exception + world" where
  "save_guest_info ex guest_id apartment_id now s =
     dump_json ex (guest_file guest_id)
       (JInfo \<lparr>link_guest_id = guest_id, link_apartment_id = apartment_id,
               link_created_at = now\<rparr>) s"

definition load_guest_info :: "string \<Rightarrow> world \<Rightarrow> json_file option" where
  "load_guest_info guest_id s = chat_history_dir s (guest_file guest_id)"

text \<open>
  The truth value Python gives a loaded JSON value (\<^verbatim>\<open>if guest_info:\<close>): a guest record
  has three keys and is true, a list is true when it is not empty.
\<close>

fun truthy :: "json_file option \<Rightarrow> bool" where
  "truthy None = False"
| "truthy (Some (JInfo i)) = True"
| "truthy (Some (JHistory h)) = (h \<noteq> [])"

text \<open>
  \<^verbatim>\<open>guest_info['apartment_id']\<close> on a value that is true: the field of a guest record; a
  list indexed by a string raises \<^verbatim>\<open>TypeError\<close>.
\<close>

fun apartment_id_of :: "json_file option \<Rightarrow> py_exception + string" where
  "apartment_id_of (Some (JInfo i)) = Inr (link_apartment_id i)"
| "apartment_id_of (Some (JHistory h)) = Inl TypeError"
| "apartment_id_of None = Inl TypeError"

subsection \<open>The system prompt\<close>

text \<open>\<^verbatim>\<open>"\n".join(lines)\<close>, to write the template of the prompt line by line.\<close>

fun join_lines :: "string list \<Rightarrow> string" where
  "join_lines [] = []"
| "join_lines [l] = l"
| "join_lines (l # ls) = l @ [nl] @ join_lines ls"

text \<open>
  \<^verbatim>\<open>get_concierge_system_prompt\<close>: the f-string with its two holes, the apartment id and
  the full text. The accented letters of the Spanish template are written without
  their accents here; nothing below depends on the fixed text.
\<close>

definition get_concierge_system_prompt :: "apartment_info \<Rightarrow> string" where
  "get_concierge_system_prompt apartment_info = join_lines
     [''Eres el conciergue virtual de MyRentalHost para el apartamento ''
        @ info_apartment_id apartment_info @ '' en Barcelona.'',
      [],
      ''Tu funcion es ayudar a los huespedes con cualquier duda o necesidad durante su estancia. Debes ser:'',
      ''- Amable, profesional y servicial'',
      ''- Claro y conciso en tus respuestas'',
      ''- Proactivo en ofrecer informacion relevante'',
      ''- Capaz de manejar emergencias con calma'',
      [],
      ''INFORMACION DEL APARTAMENTO:'',
      info_full_text apartment_info,
      [],
      ''INSTRUCCIONES IMPORTANTES:'',
      ''1. Responde SIEMPRE en espanol de forma natural y conversacional'',
      ''2. Si el huesped pregunta algo que esta en la documentacion, proporciona la respuesta exacta'',
      ''3. Para recomendaciones de Barcelona, usa tu conocimiento general de la ciudad'',
      ''4. Si hay una emergencia, proporciona los contactos de emergencia del apartamento'',
      ''5. Si no tienes informacion especifica, se honesto y ofrece contactar con el equipo de MyRentalHost'',
      ''6. Manten un tono calido pero profesional, como un conciergue de hotel de lujo'',
      ''7. Personaliza tus respuestas segun el contexto de la conversacion'',
      [],
      ''Recuerda: Tu objetivo es hacer que la estancia del huesped sea lo mas comoda y agradable posible.'']"

subsection \<open>The endpoint \<^verbatim>\<open>chat\<close>\<close>

text \<open>
  The JSON body of the request, an object: its three fields as \<^verbatim>\<open>data.get\<close> returns
  them, \<open>None\<close> for a key that is missing, strings otherwise.
\<close>

record chat_request =
  req_guest_id :: "string option"
  req_apartment_id :: "string option"
  req_message :: "string option"

record chat_reply =
  reply_response :: string
  reply_apartment_id :: string
  reply_guest_id :: string

text \<open>
  Lines 245 to 253: the apartment the request is about. Without an \<^verbatim>\<open>apartment_id\<close> in
  the request the guest's record is read; with one, the record is written first, and an
  exception of that write leaves the handler. The result is an early reply, or the
  apartment id with the state to go on from.
  (\<open>the\<close> is applied to a value that \<open>py_not\<close> has excluded from being \<open>None\<close>.)
\<close>

definition resolve_apartment ::
  "externals \<Rightarrow> clock \<Rightarrow> string \<Rightarrow> string option \<Rightarrow> world
     \<Rightarrow> chat_reply view_result + string \<times> world" where
  "resolve_apartment ex now guest_id apartment_id s =
     (if py_not apartment_id
      then (let guest_info = load_guest_info guest_id s in
            if truthy guest_info
            then (case apartment_id_of guest_info of
                    Inl e \<Rightarrow> Inl (Unhandled e)
                  | Inr a \<Rightarrow> Inr (a, s))
            else Inl (Json_error Apartment_required 400))
      else (case save_guest_info ex guest_id (the apartment_id) (now_link now) s of
              Inl e \<Rightarrow> Inl (Unhandled e)
            | Inr s1 \<Rightarrow> Inr (the apartment_id, s1)))"

text \<open>
  \<^verbatim>\<open>[{'role': .., 'content': ..} for msg in chat_history if msg['role'] in ['user', 'assistant']]\<close>
\<close>

definition api_messages :: "chat_message list \<Rightarrow> (string \<times> string) list" where
  "api_messages chat_history =
     map (\<lambda>msg. (msg_role msg, msg_content msg))
       (filter (\<lambda>msg. msg_role msg \<in> set [''user'', ''assistant'']) chat_history)"

text \<open>
  Lines 255 to 309. An exception of \<^verbatim>\<open>load_apartment_info\<close> leaves the handler.
  Its value is \<^verbatim>\<open>None\<close> or a dictionary of three keys, which is true, so
  \<^verbatim>\<open>if not apartment_info\<close> tests for \<^verbatim>\<open>None\<close>. The guest's entry is appended to the list
  read from the file; \<^verbatim>\<open>append\<close> on a guest record (a dictionary) raises
  \<^verbatim>\<open>AttributeError\<close> outside the \<^verbatim>\<open>try\<close>. The \<^verbatim>\<open>try\<close> block calls the responder and, when
  it has answered, \<^verbatim>\<open>save_chat_history\<close>; the \<^verbatim>\<open>except\<close> branch answers 500 for a
  failure of either.
\<close>

definition answer ::
  "externals \<Rightarrow> clock \<Rightarrow> string \<Rightarrow> string \<Rightarrow> string \<Rightarrow> world \<Rightarrow> chat_reply view_result \<times> world" where
  "answer ex now guest_id apartment_id message s =
     (case load_apartment_info ex apartment_id s of
        Inl e \<Rightarrow> (Unhandled e, s)
      | Inr None \<Rightarrow> (Json_error (Apartment_info_not_found apartment_id) 404, s)
      | Inr (Some apartment_info) \<Rightarrow>
          (case get_chat_history guest_id s of
             JInfo i \<Rightarrow> (Unhandled AttributeError, s)
           | JHistory h \<Rightarrow>
               (let chat_history = h @ [\<lparr>msg_role = ''user'', msg_content = message,
                                         msg_timestamp = now_user now\<rparr>];
                    system = get_concierge_system_prompt apartment_info;
                    messages = api_messages chat_history;
                    s1 = s\<lparr>responder_calls := responder_calls s @ [(system, messages)]\<rparr>
                in case responder ex system messages of
                     None \<Rightarrow> (Json_error Processing_error 500, s1)
                   | Some assistant_message \<Rightarrow>
                       (case save_chat_history ex guest_id
                               (chat_history @ [\<lparr>msg_role = ''assistant'',
                                                 msg_content = assistant_message,
                                                 msg_timestamp = now_assistant now\<rparr>]) s1 of
                          Inl e \<Rightarrow> (Json_error Processing_error 500, s1)
                        | Inr s2 \<Rightarrow>
                            (Json_ok \<lparr>reply_response = assistant_message,
                                      reply_apartment_id = apartment_id,
                                      reply_guest_id = guest_id\<rparr>, s2)))))"

definition chat ::
  "externals \<Rightarrow> clock \<Rightarrow> chat_request \<Rightarrow> world \<Rightarrow> chat_reply view_result \<times> world" where
  "chat ex now req s =
     (if py_not (req_guest_id req) \<or> py_not (req_message req)
      then (Json_error Required_fields 400, s)
      else (case resolve_apartment ex now (the (req_guest_id req)) (req_apartment_id req) s of
              Inl early \<Rightarrow> (early, s)
            | Inr (apartment_id, s1) \<Rightarrow>
                answer ex now (the (req_guest_id req)) apartment_id (the (req_message req)) s1))"

subsection \<open>History, reset, documents\<close>

record history_reply =
  hist_guest_id :: string
  hist_apartment_id :: "string option"
  hist_history :: json_file

definition get_history :: "string \<Rightarrow> world \<Rightarrow> history_reply view_result" where
  "get_history guest_id s =
     (let history = get_chat_history guest_id s;
          guest_info = load_guest_info guest_id s
      in if truthy guest_info
         then (case apartment_id_of guest_info of
                 Inl e \<Rightarrow> Unhandled e
               | Inr a \<Rightarrow> Json_ok \<lparr>hist_guest_id = guest_id, hist_apartment_id = Some a,
                                    hist_history = history\<rparr>)
         else Json_ok \<lparr>hist_guest_id = guest_id, hist_apartment_id = None,
                       hist_history = history\<rparr>)"

definition reset_chat :: "string \<Rightarrow> world \<Rightarrow> string view_result \<times> world" where
  "reset_chat guest_id s =
     (Json_ok guest_id,
      if chat_history_dir s (history_file guest_id) \<noteq> None
      then s\<lparr>chat_history_dir := (chat_history_dir s)(history_file guest_id := None)\<rparr>
      else s)"

text \<open>
  \<^verbatim>\<open>os.makedirs(path, exist_ok=True)\<close>: nothing to do for a directory,
  \<^verbatim>\<open>FileExistsError\<close> for a regular file, and otherwise the directory is made, empty,
  unless the operating system refuses.
\<close>

definition makedirs :: "externals \<Rightarrow> string \<Rightarrow> world \<Rightarrow> py_exception + world" where
  "makedirs ex path s =
     (case path_node s path of
        Some (Directory listing) \<Rightarrow> Inr s
      | Some Regular_file \<Rightarrow> Inl FileExistsError
      | None \<Rightarrow>
          (case os_refuses ex s (Make_directories path) of
             Some e \<Rightarrow> Inl e
           | None \<Rightarrow> Inr (s\<lparr>apartments_data := (apartments_data s)(path \<mapsto> [])\<rparr>)))"

text \<open>
  \<^verbatim>\<open>file.save(filepath)\<close>, which opens the path for writing: \<^verbatim>\<open>IsADirectoryError\<close> for a
  path that is a directory or ends with a slash, \<^verbatim>\<open>FileNotFoundError\<close> when the
  directory the file is to lie in does not exist; otherwise, unless the operating
  system refuses, the directory lists the name with the new bytes.
\<close>

definition file_save :: "externals \<Rightarrow> string \<Rightarrow> raw \<Rightarrow> world \<Rightarrow> py_exception + world" where
  "file_save ex filepath bytes s =
     (if last_name filepath = [] \<or> apartments_data s filepath \<noteq> None
      then Inl IsADirectoryError
      else (case apartments_data s (parent_path filepath) of
              None \<Rightarrow> Inl FileNotFoundError
            | Some listing \<Rightarrow>
                (case os_refuses ex s (Open_for_writing filepath) of
                   Some e \<Rightarrow> Inl e
                 | None \<Rightarrow>
                     Inr (s\<lparr>apartments_data := (apartments_data s)
                            (parent_path filepath \<mapsto>
                               AList.update (last_name filepath) bytes listing)\<rparr>))))"

text \<open>
  \<^verbatim>\<open>upload_document\<close>: the uploaded part is \<open>None\<close> when the form has no \<^verbatim>\<open>file\<close>,
  otherwise its name and bytes. The three checks come before the directory is made;
  an exception of \<^verbatim>\<open>os.makedirs\<close> or of \<^verbatim>\<open>file.save\<close> leaves the handler.
\<close>

definition upload_document ::
  "externals \<Rightarrow> string \<Rightarrow> (string \<times> raw) option \<Rightarrow> world \<Rightarrow> (string \<times> string) view_result \<times> world" where
  "upload_document ex apartment_id file s =
     (case file of
        None \<Rightarrow> (Json_error No_file_sent 400, s)
      | Some (name, bytes) \<Rightarrow>
          if name = [] then (Json_error Empty_filename 400, s)
          else if \<not> allowed_file name then (Json_error File_type_not_allowed 400, s)
          else (case makedirs ex (apartment_folder apartment_id) s of
                  Inl e \<Rightarrow> (Unhandled e, s)
                | Inr s1 \<Rightarrow>
                    (let filename = secure_filename ex name;
                         filepath = os_path_join (apartment_folder apartment_id) filename
                     in case file_save ex filepath bytes s1 of
                          Inl e \<Rightarrow> (Unhandled e, s1)
                        | Inr s2 \<Rightarrow> (Json_ok (apartment_id, filename), s2))))"

text \<open>
  \<^verbatim>\<open>list_documents\<close>: the same test of \<^verbatim>\<open>os.path.exists\<close> followed by \<^verbatim>\<open>os.listdir\<close>.
\<close>

definition list_documents :: "string \<Rightarrow> world \<Rightarrow> (string \<times> string list) view_result" where
  "list_documents apartment_id s =
     (case path_node s (apartment_folder apartment_id) of
        None \<Rightarrow> Json_error Apartment_not_found 404
      | Some Regular_file \<Rightarrow> Unhandled NotADirectoryError
      | Some (Directory listing) \<Rightarrow>
          Json_ok (apartment_id, filter allowed_file (map fst listing)))"

subsection \<open>Webhook verification\<close>

text \<open>
  The \<^verbatim>\<open>GET\<close> branch of \<^verbatim>\<open>whatsapp_webhook\<close>. The first argument is the value of the
  environment variable \<^verbatim>\<open>WHATSAPP_VERIFY_TOKEN\<close>, \<open>None\<close> when it is not set; the three
  query arguments are \<open>None\<close> when absent. The handler returns the challenge as it got
  it, or the pair \<^verbatim>\<open>('Forbidden', 403)\<close>.
\<close>

definition VERIFY_TOKEN :: "string option \<Rightarrow> string" where
  "VERIFY_TOKEN env = (case env of Some v \<Rightarrow> v | None \<Rightarrow> ''myrentalhost_verify_token'')"

datatype verify_result = Challenge "string option" | Forbidden nat

definition whatsapp_webhook_get ::
  "string option \<Rightarrow> string option \<Rightarrow> string option \<Rightarrow> string option \<Rightarrow> verify_result" where
  "whatsapp_webhook_get env mode token challenge =
     (if mode = Some ''subscribe'' \<and> token = Some (VERIFY_TOKEN env)
      then Challenge challenge
      else Forbidden 403)"

subsection \<open>\<^verbatim>\<open>GuestPhoneRegistry\<close>\<close>

record registry_entry =
  entry_apartment_id :: string
  entry_guest_name :: "string option"
  entry_registered_at :: string

text \<open>
  An object of the class: the content of its storage file (\<open>None\<close> when the file does
  not exist) and the dictionary \<^verbatim>\<open>self.registry\<close>.
\<close>

record guest_phone_registry =
  storage :: "(string \<rightharpoonup> registry_entry) option"
  registry :: "string \<rightharpoonup> registry_entry"

text \<open>\<^verbatim>\<open>__init__\<close> with \<^verbatim>\<open>_load_registry\<close>.\<close>

definition new_registry :: "(string \<rightharpoonup> registry_entry) option \<Rightarrow> guest_phone_registry" where
  "new_registry stored =
     \<lparr>storage = stored,
      registry = (case stored of Some m \<Rightarrow> m | None \<Rightarrow> Map.empty)\<rparr>"

definition save_registry :: "guest_phone_registry \<Rightarrow> guest_phone_registry" where
  "save_registry r = r\<lparr>storage := Some (registry r)\<rparr>"

text \<open>
  The names bound at the top level of \<^verbatim>\<open>whatsapp_integration.py\<close>: its imports
  (\<^verbatim>\<open>import requests\<close>, \<^verbatim>\<open>import os\<close>, \<^verbatim>\<open>from typing import Dict, Optional\<close>), its two
  classes, its function, and the two variables of the \<^verbatim>\<open>__main__\<close> block. A name a
  method reads that is neither local, nor here, nor a builtin raises \<^verbatim>\<open>NameError\<close>.
\<close>

definition module_globals :: "string list" where
  "module_globals =
     [''requests'', ''os'', ''Dict'', ''Optional'', ''WhatsAppClient'',
      ''GuestPhoneRegistry'', ''process_whatsapp_message'', ''wa_client'', ''guest_reg'']"

text \<open>
  \<^verbatim>\<open>register_guest\<close>: the dictionary on the right of the assignment is built first, and
  its third value reads the name \<^verbatim>\<open>datetime\<close>. The fourth argument is the value
  \<^verbatim>\<open>datetime.now().isoformat()\<close> would have.
\<close>

definition register_guest ::
  "string \<Rightarrow> string \<Rightarrow> string option \<Rightarrow> string \<Rightarrow> guest_phone_registry
     \<Rightarrow> (py_exception + unit) \<times> guest_phone_registry" where
  "register_guest phone_number apartment_id guest_name now r =
     (if ''datetime'' \<in> set module_globals
      then (Inr (),
            save_registry (r\<lparr>registry := (registry r)(phone_number \<mapsto>
              \<lparr>entry_apartment_id = apartment_id, entry_guest_name = guest_name,
               entry_registered_at = now\<rparr>)\<rparr>))
      else (Inl NameError, r))"

definition get_apartment_id :: "string \<Rightarrow> guest_phone_registry \<Rightarrow> string option" where
  "get_apartment_id phone_number r =
     (case registry r phone_number of
        None \<Rightarrow> None
      | Some guest_info \<Rightarrow> Some (entry_apartment_id guest_info))"

subsection \<open>Vocabulary for the statements\<close>

text \<open>
  The names the loader's \<^verbatim>\<open>if\<close>/\<^verbatim>\<open>elif\<close> chain does not skip, and the extractor the chain
  picks for such a name.
\<close>

definition loader_reads :: "string \<Rightarrow> bool" where
  "loader_reads filename =
     (endswith filename ''.pdf'' \<or> endswith filename ''.docx'' \<or> endswith filename ''.doc'')"

definition extracted_text :: "externals \<Rightarrow> string \<Rightarrow> raw \<Rightarrow> string" where
  "extracted_text ex filename bytes =
     (if endswith filename ''.pdf'' then extract_text_from_pdf ex bytes
      else extract_text_from_docx ex bytes)"

subsection \<open>Sample inputs\<close>

text \<open>
  An operating system for the samples, with the refusals of a Linux file system: a path
  with a NUL byte (\<^verbatim>\<open>ValueError\<close>, raised by Python itself), a name longer than 255
  bytes (\<^verbatim>\<open>OSError\<close>), and a file to be opened in a directory that does not exist
  (\<^verbatim>\<open>FileNotFoundError\<close>). The directory \<^verbatim>\<open>chat_history\<close> is made when the module is
  loaded and has no directory inside it.
\<close>

definition NAME_MAX :: nat where
  "NAME_MAX = 255"

definition linux_refuses :: "world \<Rightarrow> os_call \<Rightarrow> py_exception option" where
  "linux_refuses s call =
     (case call of
        Open_for_writing path \<Rightarrow>
          if CHR 0x00 \<in> set path then Some ValueError
          else if NAME_MAX < length (last_name path) then Some OSError
          else if parent_path path = ''chat_history'' then None
          else if apartments_data s (parent_path path) = None then Some FileNotFoundError
          else None
      | Make_directories path \<Rightarrow>
          if CHR 0x00 \<in> set path then Some ValueError
          else if NAME_MAX < length (last_name path) then Some OSError
          else None)"

text \<open>
  A responder that answers, one that fails, and a state with two apartments and two
  guests: \<^verbatim>\<open>guest-1\<close> is linked to \<^verbatim>\<open>apt-2\<close> and has no history, \<^verbatim>\<open>guest-2\<close> is linked
  to \<^verbatim>\<open>apt-1\<close> and has one exchange on file.
\<close>

definition demo_externals :: externals where
  "demo_externals =
     \<lparr>extract_text_from_pdf = (\<lambda>bytes. bytes), extract_text_from_docx = (\<lambda>bytes. bytes),
      secure_filename = (\<lambda>name. name),
      responder = (\<lambda>system messages. Some ''Bienvenido''),
      os_refuses = linux_refuses\<rparr>"

definition failing_externals :: externals where
  "failing_externals = demo_externals\<lparr>responder := (\<lambda>system messages. None)\<rparr>"

definition demo_clock :: clock where
  "demo_clock = \<lparr>now_link = ''2025-01-01T10:00:00'', now_user = ''2025-01-01T10:00:01'',
                 now_assistant = ''2025-01-01T10:00:02''\<rparr>"

definition demo_world :: world where
  "demo_world =
     \<lparr>apartments_data =
        [''apartments_data/apt-1'' \<mapsto> [(''guide.pdf'', ''wifi 1234''), (''photo.jpg'', ''JFIF'')],
         ''apartments_data/apt-2'' \<mapsto> [(''photo.jpg'', ''JFIF'')]],
      chat_history_dir =
        [''chat_history/guest-1_info.json'' \<mapsto>
           JInfo \<lparr>link_guest_id = ''guest-1'', link_apartment_id = ''apt-2'',
                  link_created_at = ''2024-12-31T09:00:00''\<rparr>,
         ''chat_history/guest-2_info.json'' \<mapsto>
           JInfo \<lparr>link_guest_id = ''guest-2'', link_apartment_id = ''apt-1'',
                  link_created_at = ''2024-12-30T09:00:00''\<rparr>,
         ''chat_history/guest-2.json'' \<mapsto>
           JHistory [\<lparr>msg_role = ''user'', msg_content = ''hola'',
                      msg_timestamp = ''2024-12-30T09:00:01''\<rparr>,
                     \<lparr>msg_role = ''assistant'', msg_content = ''Bienvenido'',
                      msg_timestamp = ''2024-12-30T09:00:02''\<rparr>]],
      responder_calls = []\<rparr>"

definition demo_history :: "chat_message list" where
  "demo_history =
     [\<lparr>msg_role = ''user'', msg_content = ''hola'', msg_timestamp = ''2024-12-30T09:00:01''\<rparr>,
      \<lparr>msg_role = ''assistant'', msg_content = ''Bienvenido'',
       msg_timestamp = ''2024-12-30T09:00:02''\<rparr>]"

text \<open>What the loader returns for \<^verbatim>\<open>apt-1\<close> in that state.\<close>

definition demo_info :: apartment_info where
  "demo_info =
     \<lparr>info_apartment_id = ''apt-1'',
      info_documents = [\<lparr>doc_filename = ''guide.pdf'', doc_content = ''wifi 1234''\<rparr>],
      info_full_text = section_marker ''guide.pdf'' @ ''wifi 1234''\<rparr>"

text \<open>
  Requests: \<^verbatim>\<open>guest-1\<close> names an apartment, \<^verbatim>\<open>guest-2\<close> relies on the link on file,
  \<^verbatim>\<open>guest-3\<close> is unknown and names none; a guest id with a slash in it; and a request
  that names, as its apartment, the document \<^verbatim>\<open>guide.pdf\<close> of \<^verbatim>\<open>apt-1\<close>.
\<close>

definition demo_request :: chat_request where
  "demo_request = \<lparr>req_guest_id = Some ''guest-1'', req_apartment_id = Some ''apt-1'',
                   req_message = Some ''hello''\<rparr>"

definition returning_request :: chat_request where
  "returning_request = \<lparr>req_guest_id = Some ''guest-2'', req_apartment_id = None,
                        req_message = Some ''gracias''\<rparr>"




section \<open>Properties\<close>

subsection \<open>The two files of a guest\<close>

lemma history_file_neq_guest_file: "history_file g \<noteq> guest_file g"
  by (simp add: history_file_def guest_file_def)


text \<open>
  The two names are built from the guest id alone, so the record of one guest can be the
  history file of another: the history of the guest \<open>g @ ''_info''\<close> is the file that
  holds the record of \<open>g\<close>.
\<close>

lemma history_file_of_info_guest: "history_file (g @ ''_info'') = guest_file g"
  by (simp add: history_file_def guest_file_def)

subsection \<open>What a written JSON file changes\<close>

lemma dump_json_written:
  "dump_json ex path value s = Inr s1 \<Longrightarrow> s1 = write_json path value s"
  by (simp add: dump_json_def split: option.splits)

lemma dump_json_refused:
  "os_refuses ex s (Open_for_writing path) = Some e \<Longrightarrow> dump_json ex path value s = Inl e"
  by (simp add: dump_json_def)

lemma dump_json_carried_out:
  "os_refuses ex s (Open_for_writing path) = None \<Longrightarrow>
     dump_json ex path value s = Inr (write_json path value s)"
  by (simp add: dump_json_def)

lemma apartments_data_write_json:
  "apartments_data (write_json path value s) = apartments_data s"
  by (simp add: write_json_def)

lemma responder_calls_write_json:
  "responder_calls (write_json path value s) = responder_calls s"
  by (simp add: write_json_def)

lemma listed_file_write_json: "listed_file (write_json path value s) p = listed_file s p"
  by (simp add: listed_file_def write_json_def)

lemma path_node_write_json: "path_node (write_json path value s) p = path_node s p"
  by (simp add: path_node_def listed_file_write_json apartments_data_write_json)

lemma load_apartment_info_write_json:
  "load_apartment_info ex a (write_json path value s) = load_apartment_info ex a s"
  by (simp add: load_apartment_info_def path_node_write_json)

lemma get_chat_history_write_guest_file:
  "get_chat_history g (write_json (guest_file g) value s) = get_chat_history g s"
  by (simp add: get_chat_history_def write_json_def history_file_neq_guest_file)

lemma get_chat_history_write_history_file:
  "get_chat_history g (write_json (history_file g) value s) = value"
  by (simp add: get_chat_history_def write_json_def)

lemma load_guest_info_write_guest_file:
  "load_guest_info g (write_json (guest_file g) value s) = Some value"
  by (simp add: load_guest_info_def write_json_def)


lemma get_chat_history_responder_calls:
  "get_chat_history g (s\<lparr>responder_calls := calls\<rparr>) = get_chat_history g s"
  by (simp add: get_chat_history_def)

lemma load_guest_info_responder_calls:
  "load_guest_info g (s\<lparr>responder_calls := calls\<rparr>) = load_guest_info g s"
  by (simp add: load_guest_info_def)

lemma listed_file_responder_calls:
  "listed_file (s\<lparr>responder_calls := calls\<rparr>) p = listed_file s p"
  by (simp add: listed_file_def)

lemma path_node_responder_calls:
  "path_node (s\<lparr>responder_calls := calls\<rparr>) p = path_node s p"
  by (simp add: path_node_def listed_file_responder_calls)

subsection \<open>Paths of apartments\<close>



lemma path_node_directory:
  "path_node s p = Some (Directory listing) \<longleftrightarrow> apartments_data s p = Some listing"
  by (auto simp: path_node_def split: option.splits)

subsection \<open>The loader's loop\<close>


lemma load_documents_full_text:
  "info_full_text (load_documents ex listing info) =
     info_full_text info @
     concat (map (\<lambda>(name, bytes). section_marker name @ extracted_text ex name bytes)
                 (filter (\<lambda>(name, bytes). loader_reads name) listing))"
  by (induction ex listing info rule: load_documents.induct)
     (simp_all add: loader_reads_def extracted_text_def add_document_def)

lemma load_documents_names:
  "map doc_filename (info_documents (load_documents ex listing info)) =
     map doc_filename (info_documents info) @ filter loader_reads (map fst listing)"
  by (induction ex listing info rule: load_documents.induct)
     (simp_all add: loader_reads_def add_document_def)

lemma sublist_concat_member: "x \<in> set xs \<Longrightarrow> sublist x (concat xs)"
proof (induction xs)
  case Nil
  then show ?case by simp
next
  case (Cons y ys)
  show ?case
  proof (cases "x = y")
    case True
    then show ?thesis by (simp add: sublist_appendI)
  next
    case False
    with Cons have "sublist x (concat ys)" by simp
    then show ?thesis by (simp add: sublist_append)
  qed
qed

text \<open>
  Every file of the listing that the loop reads leaves its marker in the full text,
  wherever it stands in the listing.
\<close>

lemma marker_in_full_text:
  assumes "apartments_data s (apartment_folder a) = Some listing"
    and "(name, bytes) \<in> set listing" and "loader_reads name"
  shows "\<exists>info. load_apartment_info ex a s = Inr (Some info) \<and>
           sublist (section_marker name) (info_full_text info)"
proof -
  let ?sec = "\<lambda>(name, bytes). section_marker name @ extracted_text ex name bytes"
  let ?kept = "filter (\<lambda>(name, bytes). loader_reads name) listing"
  have "(name, bytes) \<in> set ?kept" using assms by simp
  then have "?sec (name, bytes) \<in> set (map ?sec ?kept)" by force
  then have "sublist (?sec (name, bytes)) (concat (map ?sec ?kept))"
    by (rule sublist_concat_member)
  moreover have "sublist (section_marker name) (?sec (name, bytes))"
    by (simp add: sublist_appendI)
  ultimately have "sublist (section_marker name) (concat (map ?sec ?kept))"
    by (rule sublist_order.order_trans[rotated])
  then show ?thesis using assms(1)
    by (simp add: load_apartment_info_def path_node_def load_documents_full_text
        sublist_append)
qed

subsection \<open>The two stages of \<^verbatim>\<open>chat\<close>\<close>

text \<open>
  What the resolution of the apartment leaves untouched, how \<^verbatim>\<open>chat\<close> falls into its
  stages for a request that names its guest, and what the second stage does when the
  responder fails and when it answers.
\<close>

lemma resolve_apartment_frame:
  assumes "resolve_apartment ex now g apt s = Inr (a, s1)"
  shows "get_chat_history g s1 = get_chat_history g s"
    and "apartments_data s1 = apartments_data s"
    and "responder_calls s1 = responder_calls s"
    and "path_node s1 p = path_node s p"
  using assms
  by (auto simp: resolve_apartment_def Let_def save_guest_info_def
      get_chat_history_write_guest_file apartments_data_write_json
      responder_calls_write_json path_node_write_json
      dest!: dump_json_written split: if_splits sum.splits)

lemma resolve_apartment_supplied:
  assumes "apartment_id \<noteq> []"
    and "os_refuses ex s (Open_for_writing (guest_file g)) = None"
  shows "resolve_apartment ex now g (Some apartment_id) s =
           Inr (apartment_id,
                write_json (guest_file g)
                  (JInfo \<lparr>link_guest_id = g, link_apartment_id = apartment_id,
                          link_created_at = now_link now\<rparr>) s)"
  using assms
  by (simp add: resolve_apartment_def py_not_def save_guest_info_def dump_json_def)

lemma resolve_apartment_refused:
  assumes "apartment_id \<noteq> []"
    and "os_refuses ex s (Open_for_writing (guest_file g)) = Some e"
  shows "resolve_apartment ex now g (Some apartment_id) s = Inl (Unhandled e)"
  using assms
  by (simp add: resolve_apartment_def py_not_def save_guest_info_def dump_json_def)


lemma chat_stages:
  assumes "req_guest_id req = Some g"
  shows "chat ex now req s =
     (if g = [] \<or> py_not (req_message req) then (Json_error Required_fields 400, s)
      else (case resolve_apartment ex now g (req_apartment_id req) s of
              Inl early \<Rightarrow> (early, s)
            | Inr (a, s1) \<Rightarrow> answer ex now g a (the (req_message req)) s1))"
  using assms by (auto simp: chat_def py_not_def split: sum.splits)

lemma answer_failure:
  assumes call: "responder_calls (snd (answer ex now g a m s)) = responder_calls s @ [(system, messages)]"
    and fail: "responder ex system messages = None"
  shows "answer ex now g a m s =
           (Json_error Processing_error 500,
            s\<lparr>responder_calls := responder_calls s @ [(system, messages)]\<rparr>)"
proof (cases "load_apartment_info ex a s")
  case (Inl e)
  with call show ?thesis by (simp add: answer_def)
next
  case (Inr found)
  show ?thesis
  proof (cases found)
    case None
    with Inr call show ?thesis by (simp add: answer_def)
  next
    case (Some info)
    show ?thesis
    proof (cases "get_chat_history g s")
      case (JInfo i)
      with Inr Some call show ?thesis by (simp add: answer_def)
    next
      case (JHistory h)
      let ?sys = "get_concierge_system_prompt info"
      let ?msgs = "api_messages (h @ [\<lparr>msg_role = ''user'', msg_content = m,
                                 msg_timestamp = now_user now\<rparr>])"
      from Inr Some JHistory call have same: "(system, messages) = (?sys, ?msgs)"
        by (auto simp: answer_def Let_def save_chat_history_def responder_calls_write_json
            dest!: dump_json_written split: option.splits sum.splits)
      with fail have "responder ex ?sys ?msgs = None" by simp
      with Inr Some JHistory same show ?thesis
        by (simp add: answer_def Let_def)
    qed
  qed
qed

lemma answer_success:
  assumes ok: "answer ex now g a m s = (Json_ok reply, s')"
    and h: "get_chat_history g s = JHistory H"
  shows "get_chat_history g s' =
           JHistory (H @ [\<lparr>msg_role = ''user'', msg_content = m, msg_timestamp = now_user now\<rparr>,
                          \<lparr>msg_role = ''assistant'', msg_content = reply_response reply,
                            msg_timestamp = now_assistant now\<rparr>])"
proof -
  let ?u = "\<lparr>msg_role = ''user'', msg_content = m, msg_timestamp = now_user now\<rparr>"
  from ok h obtain info r s1 where
    r: "reply_response reply = r"
    and saved: "save_chat_history ex g
                  (H @ [?u, \<lparr>msg_role = ''assistant'', msg_content = r,
                             msg_timestamp = now_assistant now\<rparr>]) s1 = Inr s'"
    by (auto simp: answer_def Let_def
        split: sum.splits option.splits json_file.splits)
  from saved have "s' = write_json (history_file g)
      (JHistory (H @ [?u, \<lparr>msg_role = ''assistant'', msg_content = r,
                           msg_timestamp = now_assistant now\<rparr>])) s1"
    unfolding save_chat_history_def by (rule dump_json_written)
  then show ?thesis
    by (simp add: get_chat_history_write_history_file r)
qed



subsection \<open>The sample inputs, evaluated\<close>

lemma apartment_folder_relative:
  "\<not> startswith a ''/'' \<Longrightarrow> apartment_folder a = ''apartments_data/'' @ a"
  by (simp add: apartment_folder_def os_path_join_def UPLOAD_FOLDER_def endswith_def suffix_Cons)

lemma demo_folders:
  "apartment_folder ''apt-1'' = ''apartments_data/apt-1''"
  "apartment_folder ''apt-2'' = ''apartments_data/apt-2''"
  "apartment_folder ''apt-3'' = ''apartments_data/apt-3''"
  "apartment_folder ''apt-9'' = ''apartments_data/apt-9''"
  "apartment_folder ''apt-1/guide.pdf'' = ''apartments_data/apt-1/guide.pdf''"
  by (simp_all add: apartment_folder_relative startswith_def)

lemma demo_nodes:
  "path_node demo_world ''apartments_data/apt-1'' =
     Some (Directory [(''guide.pdf'', ''wifi 1234''), (''photo.jpg'', ''JFIF'')])"
  "path_node demo_world ''apartments_data/apt-2'' = Some (Directory [(''photo.jpg'', ''JFIF'')])"
  "path_node demo_world ''apartments_data/apt-3'' = None"
  "path_node demo_world ''apartments_data/apt-9'' = None"
  "path_node demo_world ''apartments_data/apt-1/guide.pdf'' = Some Regular_file"
  by (simp_all add: path_node_def listed_file_def demo_world_def parent_path_def last_name_def)

lemma demo_load: "load_apartment_info ex ''apt-2'' demo_world =
    Inr (Some \<lparr>info_apartment_id = ''apt-2'', info_documents = [], info_full_text = []\<rparr>)"
  "load_apartment_info demo_externals ''apt-1'' demo_world = Inr (Some demo_info)"
  "load_apartment_info failing_externals ''apt-1'' demo_world = Inr (Some demo_info)"
  "load_apartment_info ex ''apt-9'' demo_world = Inr None"
  "load_apartment_info ex ''apt-1/guide.pdf'' demo_world = Inl NotADirectoryError"
  by (simp_all add: load_apartment_info_def demo_folders demo_nodes endswith_def suffix_Cons
      add_document_def demo_info_def demo_externals_def failing_externals_def)

lemma demo_responder: "responder demo_externals system messages = Some ''Bienvenido''"
  by (simp add: demo_externals_def)

lemma failing_responder: "responder failing_externals system messages = None"
  by (simp add: failing_externals_def)

lemma demo_os:
  "os_refuses demo_externals = linux_refuses" "os_refuses failing_externals = linux_refuses"
  by (simp_all add: demo_externals_def failing_externals_def)

lemma linux_opens:
  "linux_refuses s (Open_for_writing (guest_file ''guest-1'')) = None"
  "linux_refuses s (Open_for_writing (history_file ''guest-2'')) = None"
  by (simp_all add: linux_refuses_def guest_file_def history_file_def parent_path_def
      last_name_def NAME_MAX_def)


lemma demo_history_guest_1: "get_chat_history ''guest-1'' demo_world = JHistory []"
  by (simp add: get_chat_history_def demo_world_def history_file_def)

lemma demo_history_guest_2: "get_chat_history ''guest-2'' demo_world = JHistory demo_history"
  by (simp add: get_chat_history_def demo_world_def history_file_def demo_history_def)

lemma demo_link_guest_1:
  "load_guest_info ''guest-1'' demo_world =
     Some (JInfo \<lparr>link_guest_id = ''guest-1'', link_apartment_id = ''apt-2'',
                   link_created_at = ''2024-12-31T09:00:00''\<rparr>)"
  by (simp add: load_guest_info_def demo_world_def guest_file_def)

lemma demo_link_guest_2:
  "load_guest_info ''guest-2'' demo_world =
     Some (JInfo \<lparr>link_guest_id = ''guest-2'', link_apartment_id = ''apt-1'',
                   link_created_at = ''2024-12-30T09:00:00''\<rparr>)"
  by (simp add: load_guest_info_def demo_world_def guest_file_def)


lemma demo_chat_failing:
  "chat failing_externals demo_clock demo_request demo_world =
     (Json_error Processing_error 500,
      (write_json (guest_file ''guest-1'')
         (JInfo \<lparr>link_guest_id = ''guest-1'', link_apartment_id = ''apt-1'',
                 link_created_at = ''2025-01-01T10:00:00''\<rparr>) demo_world)
        \<lparr>responder_calls :=
           responder_calls demo_world @
             [(get_concierge_system_prompt demo_info, [(''user'', ''hello'')])]\<rparr>)"
  by (simp add: chat_def demo_request_def py_not_def resolve_apartment_def answer_def
      save_guest_info_def dump_json_def demo_os linux_opens
      load_apartment_info_write_json demo_load get_chat_history_write_guest_file
      demo_clock_def api_messages_def demo_history_guest_1 failing_responder
      responder_calls_write_json)

lemma demo_chat_returning_failing:
  "chat failing_externals demo_clock returning_request demo_world =
     (Json_error Processing_error 500,
      demo_world\<lparr>responder_calls :=
        responder_calls demo_world @
          [(get_concierge_system_prompt demo_info,
            [(''user'', ''hola''), (''assistant'', ''Bienvenido''), (''user'', ''gracias'')])]\<rparr>)"
  by (simp add: chat_def returning_request_def py_not_def resolve_apartment_def answer_def
      demo_link_guest_2 demo_load demo_clock_def demo_history_guest_2 demo_history_def
      api_messages_def failing_responder)

lemma demo_chat_returning:
  "chat demo_externals demo_clock returning_request demo_world =
     (Json_ok \<lparr>reply_response = ''Bienvenido'', reply_apartment_id = ''apt-1'',
               reply_guest_id = ''guest-2''\<rparr>,
      write_json (history_file ''guest-2'')
        (JHistory (demo_history @
           [\<lparr>msg_role = ''user'', msg_content = ''gracias'',
             msg_timestamp = ''2025-01-01T10:00:01''\<rparr>,
            \<lparr>msg_role = ''assistant'', msg_content = ''Bienvenido'',
             msg_timestamp = ''2025-01-01T10:00:02''\<rparr>]))
        (demo_world\<lparr>responder_calls :=
           responder_calls demo_world @
           [(get_concierge_system_prompt demo_info,
             [(''user'', ''hola''), (''assistant'', ''Bienvenido''), (''user'', ''gracias'')])]\<rparr>))"
  by (simp add: chat_def returning_request_def py_not_def resolve_apartment_def answer_def
      demo_link_guest_2 demo_load demo_clock_def demo_history_guest_2 demo_history_def
      api_messages_def demo_responder save_chat_history_def dump_json_def demo_os linux_opens)



section \<open>The claims\<close>

subsection \<open>C1: a responder failure\<close>

text \<open>
  C1 as stated says that after a failed responder call the persisted history contains
  the guest's new message. It does not: the guest's entry is appended to the list in
  memory, and \<^verbatim>\<open>save_chat_history\<close> is reached on the success path only. For
  \<^verbatim>\<open>guest-1\<close>, who has no history on file, the request \<^verbatim>\<open>hello\<close> with a failing
  responder is answered 500 and the history read afterwards is still empty.
\<close>

theorem chat_responder_failure_loses_guest_message:
  "fst (chat failing_externals demo_clock demo_request demo_world)
     = Json_error Processing_error 500 \<and>
   get_chat_history ''guest-1'' (snd (chat failing_externals demo_clock demo_request demo_world))
     = JHistory []"
  by (simp add: demo_chat_failing get_chat_history_responder_calls
      get_chat_history_write_guest_file demo_history_guest_1)

text \<open>
  C1, amended: when the request of a guest reaches the responder (the call
  \<open>(system, messages)\<close> is the one the request adds to the calls made) and the responder
  fails on it, the endpoint answers the generic processing error with status 500, it
  does not raise, and the guest's persisted history is what it was before: neither the
  guest's new message nor an assistant entry is written.
\<close>

theorem chat_responder_failure_keeps_history:
  assumes g: "req_guest_id req = Some guest_id"
    and call: "responder_calls (snd (chat ex now req s)) = responder_calls s @ [(system, messages)]"
    and fail: "responder ex system messages = None"
  shows "fst (chat ex now req s) = Json_error Processing_error 500 \<and>
         get_chat_history guest_id (snd (chat ex now req s)) = get_chat_history guest_id s"
proof (cases "guest_id = [] \<or> py_not (req_message req)")
  case True
  with call show ?thesis by (simp add: chat_stages [OF g])
next
  case valid: False
  show ?thesis
  proof (cases "resolve_apartment ex now guest_id (req_apartment_id req) s")
    case (Inl early)
    with valid call show ?thesis by (simp add: chat_stages [OF g])
  next
    case (Inr p)
    obtain a s1 where p: "p = (a, s1)" by (cases p)
    let ?m = "the (req_message req)"
    from valid Inr p have run: "chat ex now req s = answer ex now guest_id a ?m s1"
      by (simp add: chat_stages [OF g])
    note frame = resolve_apartment_frame [OF Inr [unfolded p]]
    from call have "responder_calls (snd (answer ex now guest_id a ?m s1)) =
        responder_calls s1 @ [(system, messages)]"
      by (simp add: run frame(3))
    from answer_failure [OF this fail]
    have "answer ex now guest_id a ?m s1 =
        (Json_error Processing_error 500,
         s1\<lparr>responder_calls := responder_calls s1 @ [(system, messages)]\<rparr>)" .
    then show ?thesis
      by (simp add: run frame(1) get_chat_history_responder_calls)
  qed
qed

theorem chat_responder_failure_keeps_history_witness:
  "fst (chat failing_externals demo_clock returning_request demo_world)
     = Json_error Processing_error 500 \<and>
   get_chat_history ''guest-2'' (snd (chat failing_externals demo_clock returning_request demo_world))
     = JHistory demo_history"
proof -
  have g: "req_guest_id returning_request = Some ''guest-2''"
    by (simp add: returning_request_def)
  have call: "responder_calls (snd (chat failing_externals demo_clock returning_request demo_world))
      = responder_calls demo_world @
          [(get_concierge_system_prompt demo_info,
            [(''user'', ''hola''), (''assistant'', ''Bienvenido''), (''user'', ''gracias'')])]"
    by (simp add: demo_chat_returning_failing)
  show ?thesis
    using chat_responder_failure_keeps_history [OF g call failing_responder]
    by (simp add: demo_history_guest_2)
qed

subsection \<open>C2: a successful exchange\<close>

text \<open>
  C2: when \<^verbatim>\<open>chat(guest_id, apartment_id, message)\<close> succeeds for a guest whose persisted
  history is \<open>H\<close>, the persisted history afterwards is \<open>H\<close> followed by one entry of role
  \<^verbatim>\<open>user\<close> with the message sent and then one entry of role \<^verbatim>\<open>assistant\<close> with the reply
  returned, in that order; the entries of \<open>H\<close> are kept as they were.
\<close>

theorem chat_success_appends_two_entries:
  assumes ok: "chat ex now \<lparr>req_guest_id = Some guest_id, req_apartment_id = apartment_id,
             req_message = Some message\<rparr> s = (Json_ok reply, s')"
    and h: "get_chat_history guest_id s = JHistory H"
  shows "get_chat_history guest_id s' =
           JHistory (H @ [\<lparr>msg_role = ''user'', msg_content = message,
                            msg_timestamp = now_user now\<rparr>,
                          \<lparr>msg_role = ''assistant'', msg_content = reply_response reply,
                            msg_timestamp = now_assistant now\<rparr>])"
proof -
  let ?req = "\<lparr>req_guest_id = Some guest_id, req_apartment_id = apartment_id,
             req_message = Some message\<rparr>"
  have g: "req_guest_id ?req = Some guest_id" by simp
  from ok have valid: "\<not> (guest_id = [] \<or> py_not (req_message ?req))"
    by (auto simp: chat_stages [OF g])
  show ?thesis
  proof (cases "resolve_apartment ex now guest_id apartment_id s")
    case (Inl early)
    with ok valid have "early = Json_ok reply" by (simp add: chat_stages [OF g])
    with Inl show ?thesis
      by (auto simp: resolve_apartment_def Let_def split: if_splits sum.splits)
  next
    case (Inr p)
    obtain a s1 where p: "p = (a, s1)" by (cases p)
    from ok valid Inr p have run: "answer ex now guest_id a message s1 = (Json_ok reply, s')"
      by (simp add: chat_stages [OF g])
    from resolve_apartment_frame(1) [OF Inr [unfolded p]] h
    have "get_chat_history guest_id s1 = JHistory H" by simp
    from answer_success [OF run this] show ?thesis .
  qed
qed

theorem chat_success_appends_two_entries_witness:
  "get_chat_history ''guest-2'' (snd (chat demo_externals demo_clock returning_request demo_world))
     = JHistory (demo_history @
         [\<lparr>msg_role = ''user'', msg_content = ''gracias'',
           msg_timestamp = ''2025-01-01T10:00:01''\<rparr>,
          \<lparr>msg_role = ''assistant'', msg_content = ''Bienvenido'',
           msg_timestamp = ''2025-01-01T10:00:02''\<rparr>])"
proof -
  have run: "chat demo_externals demo_clock
      \<lparr>req_guest_id = Some ''guest-2'', req_apartment_id = None, req_message = Some ''gracias''\<rparr>
      demo_world =
      (Json_ok \<lparr>reply_response = ''Bienvenido'', reply_apartment_id = ''apt-1'',
                reply_guest_id = ''guest-2''\<rparr>,
       snd (chat demo_externals demo_clock returning_request demo_world))"
    using demo_chat_returning by (simp add: returning_request_def)
  show ?thesis
    using chat_success_appends_two_entries [OF run demo_history_guest_2]
    by (simp add: demo_clock_def)
qed

subsection \<open>C3: which apartment a request is about\<close>




subsection \<open>C4: not found and found but empty\<close>




subsection \<open>C5: webhook verification\<close>

text \<open>
  C5 as stated says that the challenge is returned whenever the supplied token equals
  the configured secret. The handler also tests \<^verbatim>\<open>hub.mode\<close>: with the secret as token
  and the mode \<^verbatim>\<open>unsubscribe\<close> the answer is \<^verbatim>\<open>('Forbidden', 403)\<close>.
\<close>

theorem webhook_verify_matching_token_forbidden:
  "VERIFY_TOKEN None = ''myrentalhost_verify_token'' \<and>
   whatsapp_webhook_get None (Some ''unsubscribe'') (Some ''myrentalhost_verify_token'')
     (Some ''1158201444'') = Forbidden 403"
  by (simp add: whatsapp_webhook_get_def VERIFY_TOKEN_def)

text \<open>
  C5, amended: for all inputs, verification returns the challenge when the mode is
  \<^verbatim>\<open>subscribe\<close> and the supplied token equals the configured secret, and the forbidden
  result with status 403 otherwise; in particular no challenge is returned when the
  token differs from the secret.
\<close>

theorem webhook_verify_mode_and_token:
  "(mode = Some ''subscribe'' \<and> token = Some (VERIFY_TOKEN env) \<longrightarrow>
      whatsapp_webhook_get env mode token challenge = Challenge challenge) \<and>
   (\<not> (mode = Some ''subscribe'' \<and> token = Some (VERIFY_TOKEN env)) \<longrightarrow>
      whatsapp_webhook_get env mode token challenge = Forbidden 403) \<and>
   (token \<noteq> Some (VERIFY_TOKEN env) \<longrightarrow>
      whatsapp_webhook_get env mode token challenge \<noteq> Challenge c)"
  by (simp add: whatsapp_webhook_get_def)

theorem webhook_verify_mode_and_token_witness:
  "whatsapp_webhook_get (Some ''s3cret'') (Some ''subscribe'') (Some ''s3cret'')
     (Some ''1158201444'') = Challenge (Some ''1158201444'') \<and>
   whatsapp_webhook_get (Some ''s3cret'') (Some ''subscribe'') (Some ''guess'')
     (Some ''1158201444'') = Forbidden 403"
  using webhook_verify_mode_and_token
      [of "Some ''subscribe''" "Some ''s3cret''" "Some ''s3cret''" "Some ''1158201444''"]
    webhook_verify_mode_and_token
      [of "Some ''subscribe''" "Some ''guess''" "Some ''s3cret''" "Some ''1158201444''"]
  by (simp add: VERIFY_TOKEN_def)

subsection \<open>C6: which files the loader reads\<close>

text \<open>
  C6 says that the loader runs an extractor on every file with a supported extension.
  \<^verbatim>\<open>allowed_file\<close> lower-cases the extension before it looks it up, the loader compares
  the end of the name as it is. So \<^verbatim>\<open>NOTES.PDF\<close> is accepted by \<^verbatim>\<open>upload_document\<close>, is
  listed by \<^verbatim>\<open>list_documents\<close>, and is skipped by the loader: the knowledge of the
  apartment has no document and no marker for it.
\<close>

theorem uppercase_extension_accepted_but_not_loaded:
  "fst (upload_document demo_externals ''apt-3'' (Some (''NOTES.PDF'', ''check-in 15:00''))
          demo_world) = Json_ok (''apt-3'', ''NOTES.PDF'') \<and>
   list_documents ''apt-3''
     (snd (upload_document demo_externals ''apt-3'' (Some (''NOTES.PDF'', ''check-in 15:00''))
            demo_world)) = Json_ok (''apt-3'', [''NOTES.PDF'']) \<and>
   load_apartment_info demo_externals ''apt-3''
     (snd (upload_document demo_externals ''apt-3'' (Some (''NOTES.PDF'', ''check-in 15:00''))
            demo_world)) =
     Inr (Some \<lparr>info_apartment_id = ''apt-3'', info_documents = [], info_full_text = []\<rparr>)"
proof -
  let ?made = "demo_world\<lparr>apartments_data :=
      (apartments_data demo_world)(''apartments_data/apt-3'' \<mapsto> [])\<rparr>"
  let ?saved = "demo_world\<lparr>apartments_data :=
      (apartments_data demo_world)
        (''apartments_data/apt-3'' \<mapsto> [(''NOTES.PDF'', ''check-in 15:00'')])\<rparr>"
  have ok: "allowed_file ''NOTES.PDF''"
    by code_simp
  have made: "makedirs demo_externals ''apartments_data/apt-3'' demo_world = Inr ?made"
    by (simp add: makedirs_def demo_nodes demo_os linux_refuses_def last_name_def NAME_MAX_def)
  have path: "os_path_join ''apartments_data/apt-3'' ''NOTES.PDF'' = ''apartments_data/apt-3/NOTES.PDF''"
    by (simp add: os_path_join_def startswith_def endswith_def suffix_Cons)
  have saved: "file_save demo_externals ''apartments_data/apt-3/NOTES.PDF'' ''check-in 15:00'' ?made
      = Inr ?saved"
    by (simp add: file_save_def parent_path_def last_name_def demo_os linux_refuses_def
        NAME_MAX_def demo_world_def)
  have up: "upload_document demo_externals ''apt-3'' (Some (''NOTES.PDF'', ''check-in 15:00''))
      demo_world = (Json_ok (''apt-3'', ''NOTES.PDF''), ?saved)"
    by (simp add: upload_document_def ok demo_folders made)
       (simp add: Let_def demo_externals_def path saved [unfolded demo_externals_def])
  have node: "path_node ?saved ''apartments_data/apt-3'' =
      Some (Directory [(''NOTES.PDF'', ''check-in 15:00'')])"
    by (simp add: path_node_def)
  show ?thesis
    by (simp add: up list_documents_def load_apartment_info_def demo_folders node ok
        endswith_def suffix_Cons)
qed

subsection \<open>C7: reset\<close>

text \<open>
  C7: \<^verbatim>\<open>reset_chat\<close> deletes the guest's persisted history and leaves the guest's link as
  it was: afterwards the history read for the guest is empty, the guest record read
  for the guest is the one from before, and \<^verbatim>\<open>get_history\<close> answers as before the reset
  with the history replaced by the empty one, so with the same apartment id.
\<close>

theorem reset_chat_keeps_link:
  "get_chat_history guest_id (snd (reset_chat guest_id s)) = JHistory [] \<and>
   load_guest_info guest_id (snd (reset_chat guest_id s)) = load_guest_info guest_id s \<and>
   get_history guest_id (snd (reset_chat guest_id s)) =
     (case get_history guest_id s of
        Json_ok r \<Rightarrow> Json_ok (r\<lparr>hist_history := JHistory []\<rparr>)
      | Json_error e n \<Rightarrow> Json_error e n
      | Unhandled e \<Rightarrow> Unhandled e)"
proof -
  have h: "get_chat_history guest_id (snd (reset_chat guest_id s)) = JHistory []"
    by (simp add: reset_chat_def get_chat_history_def split: option.splits)
  have l: "load_guest_info guest_id (snd (reset_chat guest_id s)) = load_guest_info guest_id s"
    using history_file_neq_guest_file [of guest_id]
    by (simp add: reset_chat_def load_guest_info_def)
  have v: "get_history guest_id (snd (reset_chat guest_id s)) =
     (case get_history guest_id s of
        Json_ok r \<Rightarrow> Json_ok (r\<lparr>hist_history := JHistory []\<rparr>)
      | Json_error e n \<Rightarrow> Json_error e n
      | Unhandled e \<Rightarrow> Unhandled e)"
    by (simp add: get_history_def h l Let_def split: sum.splits)
  from h l v show ?thesis by simp
qed

subsection \<open>C8: an upload with a disallowed extension\<close>

text \<open>
  C8: an upload whose file name is not allowed (\<^verbatim>\<open>.exe\<close>, say) is answered with a
  validation error, status 400, and the state is the one from before: no file is saved,
  and an apartment directory that did not exist still does not exist.
\<close>

theorem upload_rejects_disallowed_extension:
  assumes "\<not> allowed_file name"
  shows "upload_document ex apartment_id (Some (name, bytes)) s =
           (Json_error (if name = [] then Empty_filename else File_type_not_allowed) 400, s) \<and>
         (apartments_data s (apartment_folder apartment_id) = None \<longrightarrow>
            apartments_data (snd (upload_document ex apartment_id (Some (name, bytes)) s))
              (apartment_folder apartment_id) = None) \<and>
         (path_node s (apartment_folder apartment_id) = None \<longrightarrow>
            path_node (snd (upload_document ex apartment_id (Some (name, bytes)) s))
              (apartment_folder apartment_id) = None)"
  using assms by (simp add: upload_document_def)

theorem upload_rejects_disallowed_extension_witness:
  "upload_document demo_externals ''apt-9'' (Some (''virus.exe'', ''MZ'')) demo_world =
     (Json_error File_type_not_allowed 400, demo_world) \<and>
   apartments_data
     (snd (upload_document demo_externals ''apt-9'' (Some (''virus.exe'', ''MZ'')) demo_world))
     (apartment_folder ''apt-9'') = None"
proof -
  have bad: "\<not> allowed_file ''virus.exe''"
    by code_simp
  have absent: "apartments_data demo_world (apartment_folder ''apt-9'') = None"
    by (simp add: demo_folders demo_world_def)
  show ?thesis
    using upload_rejects_disallowed_extension
        [OF bad, of demo_externals "''apt-9''" "''MZ''" demo_world] absent
    by simp
qed

subsection \<open>C9: the link after a responder failure\<close>

text \<open>
  C9: when a request supplies an \<^verbatim>\<open>apartment_id\<close>, reaches the responder, and the
  responder fails, the answer is the processing error with status 500 and the state
  afterwards is the state from before with the guest's link overwritten by the supplied
  apartment id (and the call recorded): the link is not rolled back, and the guest's
  persisted history is unchanged.
\<close>

theorem chat_failure_keeps_new_link:
  assumes g: "req_guest_id req = Some guest_id"
    and apt: "req_apartment_id req = Some apartment_id" and ne: "apartment_id \<noteq> []"
    and call: "responder_calls (snd (chat ex now req s)) = responder_calls s @ [(system, messages)]"
    and fail: "responder ex system messages = None"
  shows "fst (chat ex now req s) = Json_error Processing_error 500 \<and>
         snd (chat ex now req s) =
           (write_json (guest_file guest_id)
              (JInfo \<lparr>link_guest_id = guest_id, link_apartment_id = apartment_id,
                      link_created_at = now_link now\<rparr>) s)
             \<lparr>responder_calls := responder_calls s @ [(system, messages)]\<rparr> \<and>
         load_guest_info guest_id (snd (chat ex now req s)) =
           Some (JInfo \<lparr>link_guest_id = guest_id, link_apartment_id = apartment_id,
                         link_created_at = now_link now\<rparr>) \<and>
         get_chat_history guest_id (snd (chat ex now req s)) = get_chat_history guest_id s"
proof -
  let ?s1 = "write_json (guest_file guest_id)
               (JInfo \<lparr>link_guest_id = guest_id, link_apartment_id = apartment_id,
                       link_created_at = now_link now\<rparr>) s"
  let ?m = "the (req_message req)"
  from call have valid: "\<not> (guest_id = [] \<or> py_not (req_message req))"
    by (auto simp: chat_stages [OF g])
  have opened: "os_refuses ex s (Open_for_writing (guest_file guest_id)) = None"
  proof (cases "os_refuses ex s (Open_for_writing (guest_file guest_id))")
    case None
    then show ?thesis .
  next
    case (Some e)
    with valid apt ne have "chat ex now req s = (Unhandled e, s)"
      by (simp add: chat_stages [OF g] resolve_apartment_refused)
    with call show ?thesis by simp
  qed
  have "resolve_apartment ex now guest_id (req_apartment_id req) s = Inr (apartment_id, ?s1)"
    unfolding apt using ne opened by (rule resolve_apartment_supplied)
  with valid have run: "chat ex now req s = answer ex now guest_id apartment_id ?m ?s1"
    by (simp add: chat_stages [OF g])
  from call have "responder_calls (snd (answer ex now guest_id apartment_id ?m ?s1)) =
      responder_calls ?s1 @ [(system, messages)]"
    by (simp add: run responder_calls_write_json)
  from answer_failure [OF this fail]
  have result: "chat ex now req s =
      (Json_error Processing_error 500,
       ?s1\<lparr>responder_calls := responder_calls s @ [(system, messages)]\<rparr>)"
    by (simp add: run responder_calls_write_json)
  show ?thesis
    unfolding result
    by (simp add: load_guest_info_responder_calls load_guest_info_write_guest_file
        get_chat_history_responder_calls get_chat_history_write_guest_file)
qed

theorem chat_failure_keeps_new_link_witness:
  "load_guest_info ''guest-1'' demo_world =
     Some (JInfo \<lparr>link_guest_id = ''guest-1'', link_apartment_id = ''apt-2'',
                   link_created_at = ''2024-12-31T09:00:00''\<rparr>) \<and>
   fst (chat failing_externals demo_clock demo_request demo_world)
     = Json_error Processing_error 500 \<and>
   load_guest_info ''guest-1'' (snd (chat failing_externals demo_clock demo_request demo_world)) =
     Some (JInfo \<lparr>link_guest_id = ''guest-1'', link_apartment_id = ''apt-1'',
                   link_created_at = ''2025-01-01T10:00:00''\<rparr>) \<and>
   get_chat_history ''guest-1'' (snd (chat failing_externals demo_clock demo_request demo_world))
     = get_chat_history ''guest-1'' demo_world"
proof -
  have r: "req_guest_id demo_request = Some ''guest-1''"
    "req_apartment_id demo_request = Some ''apt-1''" "''apt-1'' \<noteq> []"
    by (simp_all add: demo_request_def)
  have call: "responder_calls (snd (chat failing_externals demo_clock demo_request demo_world))
      = responder_calls demo_world @
          [(get_concierge_system_prompt demo_info, [(''user'', ''hello'')])]"
    by (simp add: demo_chat_failing)
  have t: "now_link demo_clock = ''2025-01-01T10:00:00''"
    by (simp add: demo_clock_def)
  show ?thesis
    using chat_failure_keeps_new_link [OF r call failing_responder] demo_link_guest_1
    unfolding t by blast
qed

subsection \<open>C10: registering a phone number\<close>

text \<open>
  C10 says that \<^verbatim>\<open>register_guest\<close> succeeds and that \<^verbatim>\<open>get_apartment_id\<close> then returns the
  apartment registered. The method reads \<^verbatim>\<open>datetime\<close>, which the module never imports:
  the call of the module's own example raises \<^verbatim>\<open>NameError\<close> before the registry is
  touched, and the lookup afterwards finds nothing.
\<close>

theorem register_guest_raises_name_error:
  "register_guest ''34612345678'' ''apt-barcelona-001'' (Some ''Juan Perez'') now
     (new_registry None) = (Inl NameError, new_registry None) \<and>
   get_apartment_id ''34612345678''
     (snd (register_guest ''34612345678'' ''apt-barcelona-001'' (Some ''Juan Perez'') now
            (new_registry None))) = None"
  by (simp add: register_guest_def module_globals_def get_apartment_id_def new_registry_def)

text \<open>The same on every input: the registry is returned as it was given.\<close>

lemma register_guest_never_registers:
  "register_guest phone_number apartment_id guest_name now r = (Inl NameError, r)"
  by (simp add: register_guest_def module_globals_def)

end
